theory Spec2Isabelle
  imports Complex_Main "HOL-Library.Sublist"
begin

section \<open>Eligibility engine (services/geminiService.ts)\<close>

text \<open>
  A JavaScript number is modelled as a real; every arithmetic operation of the source is
  the exact operation followed by a rounding function \<open>fl\<close>, which the definitions take
  as a parameter (the identity gives exact arithmetic, round-to-nearest gives the doubles
  of the runtime on the finite range). Number literals that are not integers are rounded
  the same way. The conversion of a number to a string inside a template literal is the
  runtime's and is a parameter as well.
\<close>

definition js_add :: "(real \<Rightarrow> real) \<Rightarrow> real \<Rightarrow> real \<Rightarrow> real" where
  "js_add fl a b = fl (a + b)"

definition js_sub :: "(real \<Rightarrow> real) \<Rightarrow> real \<Rightarrow> real \<Rightarrow> real" where
  "js_sub fl a b = fl (a - b)"

definition js_mul :: "(real \<Rightarrow> real) \<Rightarrow> real \<Rightarrow> real \<Rightarrow> real" where
  "js_mul fl a b = fl (a * b)"

definition js_div :: "(real \<Rightarrow> real) \<Rightarrow> real \<Rightarrow> real \<Rightarrow> real" where
  "js_div fl a b = fl (a / b)"

text \<open>\<open>Math.round\<close>: the nearest integer, a tie going up.\<close>

definition Math_round :: "real \<Rightarrow> real" where
  "Math_round x = of_int \<lfloor>x + 1 / 2\<rfloor>"

text \<open>A rejected promise carries the value thrown.\<close>

datatype js_error = Thrown string

record EligibilityResult =
  isEligible :: bool
  limit :: real
  reason :: string

text \<open>
  \<open>checkEligibility\<close> is an async function: its promise resolves (\<open>Inr\<close>) or rejects
  (\<open>Inl\<close>). The body has no throw, no await and no check of its arguments.
\<close>

definition checkEligibility ::
  "(real \<Rightarrow> real) \<Rightarrow> (real \<Rightarrow> string) \<Rightarrow> real \<Rightarrow> real \<Rightarrow> string \<Rightarrow> js_error + EligibilityResult" where
  "checkEligibility fl numToString familySize monthlyIncome state =
    (let fplBase = js_div fl 15060 12;
         fplIncrement = js_div fl 5380 12;
         grossIncomeLimit =
           js_mul fl (js_add fl fplBase (js_mul fl (js_sub fl familySize 1) fplIncrement))
             (fl (13 / 10));
         isEligible = (monthlyIncome \<le> grossIncomeLimit)
     in Inr \<lparr> isEligible = isEligible,
              limit = grossIncomeLimit,
              reason =
                (if isEligible
                 then ''Your income of $'' @ numToString monthlyIncome
                   @ '' is below the estimated gross income limit of $''
                   @ numToString (Math_round grossIncomeLimit)
                   @ '' for a family of '' @ numToString familySize
                   @ '' in '' @ state @ ''.''
                 else ''Your income of $'' @ numToString monthlyIncome
                   @ '' exceeds the estimated gross income limit of $''
                   @ numToString (Math_round grossIncomeLimit)
                   @ '' for a family of '' @ numToString familySize
                   @ '' in '' @ state @ ''.'') \<rparr>)"

text \<open>
  The formula of the specification, in the arithmetic of the runtime:
  \<open>(base + (familySize - 1) * increment) * 1.3\<close> with \<open>base = 15060 / 12\<close> and
  \<open>increment = 5380 / 12\<close>.
\<close>

definition spec_limit :: "(real \<Rightarrow> real) \<Rightarrow> real \<Rightarrow> real" where
  "spec_limit fl familySize =
     js_mul fl
       (js_add fl (js_div fl 15060 12)
          (js_mul fl (js_sub fl familySize 1) (js_div fl 5380 12)))
       (fl (13 / 10))"

section \<open>Resource retrieval (services/geminiService.ts and the results page)\<close>

text \<open>
  The response of the grounded-generation service, as far as the source reads it:
  \<open>response.text\<close> and \<open>response.candidates?.[0]?.groundingMetadata?.groundingChunks\<close>,
  and of a chunk \<open>chunk.web\<close>, \<open>chunk.web.uri\<close> and \<open>chunk.web.title\<close>. A property that may
  be undefined is an option.
\<close>

record WebChunk =
  uri :: "string option"
  title :: "string option"

record GroundingChunk =
  web :: "WebChunk option"

record GroundingMetadata =
  gm_groundingChunks :: "GroundingChunk list option"

record Candidate =
  groundingMetadata :: "GroundingMetadata option"

record GenerateContentResponse =
  resp_text :: "string option"
  candidates :: "Candidate list option"

text \<open>What \<open>getSnapResources\<close> returns: \<open>{ text, groundingChunks }\<close>.\<close>

record SnapResources =
  res_text :: "string option"
  res_groundingChunks :: "GroundingChunk list"

datatype js_arg = Str string | Err js_error

datatype Effect =
    ConsoleLog "js_arg list"
  | ConsoleError "js_arg list"
  | Alert string
  | GetUserMedia
  | StartSession string
  | EndSession
  | SendUserMessage string
  | SetTimeout nat
  | FocusInput

definition prompt :: "string \<Rightarrow> string \<Rightarrow> string" where
  "prompt zipcode state =
     ''Find the following resources near zipcode '' @ zipcode @ '' in '' @ state @ '':'' @ [CHR 0x0A]
     @ ''  1. The closest SNAP (Supplemental Nutrition Assistance Program) or Social Services office. Provide address and phone.'' @ [CHR 0x0A]
     @ ''  2. 3 budget-friendly grocery stores (like Aldi, Walmart, or local discount markets) that accept SNAP/EBT.'' @ [CHR 0x0A]
     @ ''  3. 3 local food pantries or food banks with their addresses and hours if available.'' @ [CHR 0x0A]
     @ ''  '' @ [CHR 0x0A]
     @ ''  IMPORTANT: For every address found, format it as a clickable Markdown link that opens in Google Maps using this format: [Address](https://www.google.com/maps/search/?api=1&query=URL_ENCODED_ADDRESS).'' @ [CHR 0x0A]
     @ ''  '' @ [CHR 0x0A]
     @ ''  Return the information in a clear Markdown format. '' @ [CHR 0x0A]
     @ ''  Please separate the sections with these exact markers:'' @ [CHR 0x0A]
     @ ''  [SNAP_OFFICE]'' @ [CHR 0x0A]
     @ ''  [GROCERY_STORES]'' @ [CHR 0x0A]
     @ ''  [FOOD_PANTRIES]''"

text \<open>
  \<open>getSnapResources\<close>: one call of the service (a parameter: from the prompt to a rejected or
  resolved promise). A failure is logged and thrown again. The result pairs what was
  logged with the outcome.
\<close>

definition getSnapResources ::
  "(string \<Rightarrow> js_error + GenerateContentResponse) \<Rightarrow> string \<Rightarrow> string
     \<Rightarrow> Effect list \<times> (js_error + SnapResources)" where
  "getSnapResources generateContent zipcode state =
     (case generateContent (prompt zipcode state) of
        Inr response \<Rightarrow>
          ([], Inr \<lparr> res_text = resp_text response,
                     res_groundingChunks =
                       (case candidates response of
                          None \<Rightarrow> []
                        | Some cs \<Rightarrow>
                            (case cs of
                               [] \<Rightarrow> []
                             | c # _ \<Rightarrow>
                                 (case groundingMetadata c of
                                    None \<Rightarrow> []
                                  | Some gm \<Rightarrow>
                                      (case gm_groundingChunks gm of
                                         None \<Rightarrow> []
                                       | Some chunks \<Rightarrow> chunks)))) \<rparr>)
      | Inl error \<Rightarrow>
          ([ConsoleError [Str ''Error fetching SNAP resources:'', Err error]], Inl error))"

subsection \<open>Strings and the three regular expressions\<close>

text \<open>
  A string is a list of code units, here the 8-bit characters of HOL. \<open>trim\<close> removes
  white space and line terminators at both ends; in this range they are TAB, LF, VT, FF,
  CR, SP and NBSP.
\<close>

definition isWhiteSpace :: "char \<Rightarrow> bool" where
  "isWhiteSpace c = (of_char c \<in> {9, 10, 11, 12, 13, 32, 160 :: nat})"

definition trim :: "string \<Rightarrow> string" where
  "trim s = rev (dropWhile isWhiteSpace (rev (dropWhile isWhiteSpace s)))"

definition SNAP_OFFICE :: string where
  "SNAP_OFFICE = ''[SNAP_OFFICE]''"

definition GROCERY_STORES :: string where
  "GROCERY_STORES = ''[GROCERY_STORES]''"

definition FOOD_PANTRIES :: string where
  "FOOD_PANTRIES = ''[FOOD_PANTRIES]''"

text \<open>
  The group \<open>([\s\S]*?)\<close> followed by the lookahead \<open>(?=A|B|$)\<close>: the shortest run of code
  units after which one of the alternatives stands, or the text ends (the expressions
  carry no flag, so \<open>$\<close> is the end of the text).
\<close>

fun lazy_capture :: "string list \<Rightarrow> string \<Rightarrow> string" where
  "lazy_capture stops [] = []"
| "lazy_capture stops (c # cs) =
     (if list_ex (\<lambda>s. prefix s (c # cs)) stops then [] else c # lazy_capture stops cs)"

text \<open>
  \<open>text.match(/M([\s\S]*?)(?=A|B|$)/)\<close>: the leftmost place where the literal \<open>M\<close> stands;
  the lookahead always succeeds at the end of the text at the latest, so that place gives
  the match. The result is the first group of the match, \<open>None\<close> for \<open>null\<close>.
\<close>

fun match_marker :: "string \<Rightarrow> string list \<Rightarrow> string \<Rightarrow> string option" where
  "match_marker m stops [] =
     (if prefix m [] then Some (lazy_capture stops (drop (length m) [])) else None)"
| "match_marker m stops (c # cs) =
     (if prefix m (c # cs) then Some (lazy_capture stops (drop (length m) (c # cs)))
      else match_marker m stops cs)"

record ParsedResources =
  office :: string
  stores :: string
  pantries :: string
  fullText :: string
  groundingChunks :: "GroundingChunk list"

text \<open>The parsing step of \<open>fetchResults\<close> (the results page, lines 74 to 85).\<close>

definition parseResources :: "SnapResources \<Rightarrow> ParsedResources" where
  "parseResources resources =
     (let text = (case res_text resources of None \<Rightarrow> [] | Some s \<Rightarrow> (if s = [] then [] else s));
          officeMatch = match_marker SNAP_OFFICE [GROCERY_STORES, FOOD_PANTRIES] text;
          storesMatch = match_marker GROCERY_STORES [SNAP_OFFICE, FOOD_PANTRIES] text;
          pantriesMatch = match_marker FOOD_PANTRIES [SNAP_OFFICE, GROCERY_STORES] text
      in \<lparr> office = (case officeMatch of Some g \<Rightarrow> trim g | None \<Rightarrow> []),
           stores = (case storesMatch of Some g \<Rightarrow> trim g | None \<Rightarrow> []),
           pantries = (case pantriesMatch of Some g \<Rightarrow> trim g | None \<Rightarrow> []),
           fullText = text,
           groundingChunks = res_groundingChunks resources \<rparr>)"

subsection \<open>The results page\<close>

datatype Step = Landing | Location | Household | Results

record FormData =
  form_state :: string
  form_zipcode :: string
  form_familySize :: real
  form_income :: real

record ResultsBundle =
  eligibility :: EligibilityResult
  resources :: ParsedResources

record App =
  step :: Step
  formData :: FormData
  loading :: bool
  results :: "ResultsBundle option"
  app_effects :: "Effect list"

definition fetchResults ::
  "(real \<Rightarrow> real) \<Rightarrow> (real \<Rightarrow> string) \<Rightarrow> (string \<Rightarrow> js_error + GenerateContentResponse)
     \<Rightarrow> App \<Rightarrow> App" where
  "fetchResults fl numToString generateContent app =
     (let app1 = app\<lparr>loading := True\<rparr>;
          failed = (\<lambda>es error.
            app1\<lparr>app_effects := app_effects app1 @ es
                     @ [ConsoleError [Err error], Alert ''Something went wrong. Please try again.''],
                  loading := False\<rparr>)
      in case checkEligibility fl numToString (form_familySize (formData app1))
                (form_income (formData app1)) (form_state (formData app1)) of
           Inl error \<Rightarrow> failed [] error
         | Inr elig \<Rightarrow>
             (case getSnapResources generateContent (form_zipcode (formData app1))
                     (form_state (formData app1)) of
                (es, Inl error) \<Rightarrow> failed es error
              | (es, Inr res) \<Rightarrow>
                  app1\<lparr>app_effects := app_effects app1 @ es,
                       results := Some \<lparr> eligibility = elig, resources = parseResources res \<rparr>,
                       step := Results,
                       loading := False\<rparr>))"

subsection \<open>The parsing contract and the citation rule of the specification\<close>

text \<open>
  The places of a text where a marker stands, the place of the next marker of a list,
  and the section of a marker as the specification words it: the text from right after
  the marker to right before the next marker that appears (any of the three) or to the
  end of the text, trimmed; the empty string when the marker is absent.
\<close>

definition occurrences :: "string \<Rightarrow> string \<Rightarrow> nat list" where
  "occurrences m t = filter (\<lambda>i. prefix m (drop i t)) [0..<length t]"

definition next_marker_pos :: "string list \<Rightarrow> string \<Rightarrow> nat" where
  "next_marker_pos ms u =
     (case filter (\<lambda>j. list_ex (\<lambda>k. prefix k (drop j u)) ms) [0..<length u] of
        [] \<Rightarrow> length u
      | j # _ \<Rightarrow> j)"

definition spec_section :: "string \<Rightarrow> string \<Rightarrow> string" where
  "spec_section m t =
     (case occurrences m t of
        [] \<Rightarrow> []
      | i # _ \<Rightarrow>
          (let u = drop (i + length m) t
           in trim (take (next_marker_pos [SNAP_OFFICE, GROCERY_STORES, FOOD_PANTRIES] u) u)))"

text \<open>A citation record has a source URL when its \<open>web\<close> part is there and carries a \<open>uri\<close>.\<close>

definition has_url :: "GroundingChunk \<Rightarrow> bool" where
  "has_url c = (case web c of None \<Rightarrow> False | Some w \<Rightarrow> uri w \<noteq> None)"

definition spec_citations :: "GroundingChunk list \<Rightarrow> GroundingChunk list" where
  "spec_citations chunks = filter has_url chunks"

text \<open>The citation records the service returned, as \<open>getSnapResources\<close> reads them.\<close>

definition returned_chunks :: "GenerateContentResponse \<Rightarrow> GroundingChunk list" where
  "returned_chunks response =
     (case candidates response of
        None \<Rightarrow> []
      | Some cs \<Rightarrow>
          (case cs of
             [] \<Rightarrow> []
           | c # _ \<Rightarrow>
               (case groundingMetadata c of
                  None \<Rightarrow> []
                | Some gm \<Rightarrow> (case gm_groundingChunks gm of None \<Rightarrow> [] | Some chunks \<Rightarrow> chunks))))"


section \<open>Session controller (pages/VoiceAgent.tsx)\<close>

datatype Role = User | Agent

record Message =
  msg_id :: string
  role :: Role
  msg_text :: string
  timestamp :: nat

text \<open>
  Modelled from the spec: the transport hook \<open>useConversation\<close> is a library outside the
  repository. Its \<open>status\<close> is one of the three connection states of the specification;
  a start that the transport acknowledges leaves it \<open>connected\<close>, an end that completes
  leaves it \<open>disconnected\<close>, and a call that is pending or fails leaves it as it was.
\<close>

datatype Status = Disconnected | Connecting | Connected

text \<open>
  The component: its three pieces of state, the status of the transport, the callbacks
  that \<open>setTimeout\<close> holds (each one is a call of \<open>handleStartSession\<close>; the delay is
  kept), the number of calls of \<open>handleToggleMode\<close> that are suspended at
  \<open>await handleEndSession()\<close>, and what the handlers did to the outside, in order.
\<close>

record VoiceAgent =
  messages :: "Message list"
  isTextMode :: bool
  textInput :: string
  status :: Status
  timers :: "nat list"
  suspended :: nat
  effects :: "Effect list"

text \<open>
  What the runtime hands to one call of \<open>addMessage\<close>: \<open>Date.now()\<close> in milliseconds,
  \<open>Math.random().toString(36)\<close>, and the time of \<open>new Date()\<close>.
\<close>

record Readings =
  dateNow :: nat
  random36 :: string
  newDate :: nat

text \<open>The event of \<open>onMessage\<close>: \<open>{ message, source }\<close>.\<close>

record MessageEvent =
  message :: string
  source :: string

text \<open>The decimal digits of a natural number, as a template literal prints an integer.\<close>

fun show_nat :: "nat \<Rightarrow> string" where
  "show_nat n =
     (if n < 10 then [char_of (48 + n)] else show_nat (n div 10) @ [char_of (48 + n mod 10)])"

declare show_nat.simps [simp del]

text \<open>\<open>s.slice(2, 9)\<close> on a string.\<close>

definition slice_2_9 :: "string \<Rightarrow> string" where
  "slice_2_9 s = take 7 (drop 2 s)"

definition addMessage :: "Readings \<Rightarrow> Role \<Rightarrow> string \<Rightarrow> VoiceAgent \<Rightarrow> VoiceAgent" where
  "addMessage env r txt s =
     s\<lparr>messages := messages s @
          [\<lparr> msg_id = show_nat (dateNow env) @ ''-'' @ slice_2_9 (random36 env),
              role = r,
              msg_text = txt,
              timestamp = newDate env \<rparr>]\<rparr>"

definition onMessage :: "Readings \<Rightarrow> MessageEvent \<Rightarrow> VoiceAgent \<Rightarrow> VoiceAgent" where
  "onMessage env ev s =
     (if source ev = ''ai'' then addMessage env Agent (message ev) s
      else if source ev = ''user'' then addMessage env User (message ev) s
      else s)"

definition onError :: "string \<Rightarrow> VoiceAgent \<Rightarrow> VoiceAgent" where
  "onError error s =
     s\<lparr>effects := effects s @ [ConsoleError [Str ''Eleven Labs error:'', Str error]]\<rparr>"

text \<open>
  \<open>handleStartSession\<close>. What the outside answers is a parameter. \<open>mediaDevices\<close> is
  \<open>None\<close> when \<open>navigator.mediaDevices\<close> (or its \<open>getUserMedia\<close>) is undefined: the
  expression \<open>navigator.mediaDevices.getUserMedia({ audio: true })\<close> then throws a
  \<open>TypeError\<close> inside the \<open>try\<close> before any request is made. Otherwise the request is
  made and \<open>mediaDevices\<close> carries how its promise settles (the permission refused, or
  granted). \<open>startSession\<close> is how the promise of \<open>conversation.startSession\<close> settles.
  The configuration of \<open>startSession\<close> is the agent identifier alone: the spread
  \<open>...(isTextMode ? {} : {})\<close> adds nothing in either mode. The handler reads no state
  of the component after its awaits.
\<close>

definition TypeError_undefined :: js_error where
  "TypeError_undefined = Thrown ''TypeError''"

definition handleStartSession ::
  "string \<Rightarrow> (js_error + unit) option \<Rightarrow> js_error + unit \<Rightarrow> VoiceAgent \<Rightarrow> VoiceAgent" where
  "handleStartSession agentId mediaDevices startSession s =
     (let s0 = s\<lparr>effects := effects s @ [ConsoleLog [Str ''Starting session...'']]\<rparr>
      in case mediaDevices of
           None \<Rightarrow>
             s0\<lparr>effects := effects s0
                   @ [ConsoleError [Str ''Failed to start session:'', Err TypeError_undefined]]\<rparr>
         | Some getUserMedia \<Rightarrow>
             (let s1 = s0\<lparr>effects := effects s0 @ [GetUserMedia]\<rparr>
              in case getUserMedia of
                   Inl err \<Rightarrow>
                     s1\<lparr>effects := effects s1
                           @ [ConsoleError [Str ''Failed to start session:'', Err err]]\<rparr>
                 | Inr _ \<Rightarrow>
                     (let s2 = s1\<lparr>effects := effects s1 @ [StartSession agentId]\<rparr>
                      in case startSession of
                           Inl err \<Rightarrow>
                             s2\<lparr>effects := effects s2
                                   @ [ConsoleError [Str ''Failed to start session:'', Err err]]\<rparr>
                         | Inr _ \<Rightarrow> s2\<lparr>status := Connected\<rparr>)))"

text \<open>
  \<open>handleEndSession\<close> in its two halves: the call of \<open>conversation.endSession()\<close>, where
  the handler suspends, and what happens when the promise settles. The whole handler,
  as the end button runs it, is one after the other.
\<close>

definition handleEndSession_call :: "VoiceAgent \<Rightarrow> VoiceAgent" where
  "handleEndSession_call s = s\<lparr>effects := effects s @ [EndSession]\<rparr>"

definition handleEndSession_settle :: "js_error + unit \<Rightarrow> VoiceAgent \<Rightarrow> VoiceAgent" where
  "handleEndSession_settle endSession s =
     (case endSession of
        Inl err \<Rightarrow>
          s\<lparr>effects := effects s @ [ConsoleError [Str ''Failed to end session:'', Err err]]\<rparr>
      | Inr _ \<Rightarrow> s\<lparr>status := Disconnected\<rparr>)"

definition handleEndSession :: "js_error + unit \<Rightarrow> VoiceAgent \<Rightarrow> VoiceAgent" where
  "handleEndSession endSession s = handleEndSession_settle endSession (handleEndSession_call s)"

text \<open>
  \<open>handleToggleMode\<close> is cut at its await. The first part reads \<open>isConnected\<close>; when the
  session is connected it calls \<open>handleEndSession\<close> and suspends, and other handlers may
  run before it goes on. When the session is not connected it reaches no await: it
  flips the mode and is done. The second part runs when the end has settled, only in a
  call that found the session connected: it flips the mode, without reading
  \<open>isConnected\<close> again, and hands the deferred start to \<open>setTimeout\<close>.
\<close>

definition handleToggleMode_begin :: "VoiceAgent \<Rightarrow> VoiceAgent" where
  "handleToggleMode_begin s =
     (let wasConnected = (status s = Connected)
      in if wasConnected
         then (handleEndSession_call s)\<lparr>suspended := Suc (suspended s)\<rparr>
         else s\<lparr>isTextMode := \<not> isTextMode s\<rparr>)"







definition handleSendText :: "Readings \<Rightarrow> VoiceAgent \<Rightarrow> VoiceAgent" where
  "handleSendText env s =
     (if trim (textInput s) = [] \<or> status s \<noteq> Connected then s
      else (let s1 = addMessage env User (trim (textInput s)) s
            in s1\<lparr>effects := effects s1 @ [SendUserMessage (trim (textInput s)), FocusInput],
                  textInput := []\<rparr>))"

text \<open>
  What arrives at the log: an event of the transport (\<open>onMessage\<close>), or a text that the
  user typed into the input field and submitted (\<open>setTextInput\<close>, then \<open>handleSendText\<close>).
  A run of arrivals, each with the readings of its own call of \<open>addMessage\<close>, is
  processed in the order of arrival.
\<close>

datatype Arrival = FromTransport MessageEvent | FromTextBox string

fun arrive :: "Readings \<Rightarrow> Arrival \<Rightarrow> VoiceAgent \<Rightarrow> VoiceAgent" where
  "arrive env (FromTransport ev) s = onMessage env ev s"
| "arrive env (FromTextBox txt) s = handleSendText env (s\<lparr>textInput := txt\<rparr>)"

fun ingest :: "(Readings \<times> Arrival) list \<Rightarrow> VoiceAgent \<Rightarrow> VoiceAgent" where
  "ingest [] s = s"
| "ingest ((env, a) # rest) s = ingest rest (arrive env a s)"

text \<open>
  An arrival is an utterance of the agent or of the user when the source of the event is
  \<open>ai\<close> or \<open>user\<close>, or when the submitted text is not blank and the session is connected
  (the send button does nothing otherwise).
\<close>

definition is_utterance :: "MessageEvent \<Rightarrow> bool" where
  "is_utterance ev = (source ev = ''ai'' \<or> source ev = ''user'')"

fun ingested :: "Status \<Rightarrow> Arrival \<Rightarrow> bool" where
  "ingested st (FromTransport ev) = is_utterance ev"
| "ingested st (FromTextBox txt) = (trim txt \<noteq> [] \<and> st = Connected)"

text \<open>The role and the text of the message that an utterance becomes.\<close>

fun role_of :: "Arrival \<Rightarrow> Role" where
  "role_of (FromTransport ev) = (if source ev = ''ai'' then Agent else User)"
| "role_of (FromTextBox txt) = User"

fun text_of :: "Arrival \<Rightarrow> string" where
  "text_of (FromTransport ev) = message ev"
| "text_of (FromTextBox txt) = trim txt"

definition message_of :: "Readings \<times> Arrival \<Rightarrow> Message" where
  "message_of p =
     \<lparr> msg_id = show_nat (dateNow (fst p)) @ ''-'' @ slice_2_9 (random36 (fst p)),
       role = role_of (snd p),
       msg_text = text_of (snd p),
       timestamp = newDate (fst p) \<rparr>"

text \<open>The component as it is mounted: \<open>useState([])\<close>, \<open>useState(false)\<close>, \<open>useState('')\<close>.\<close>

definition initial :: VoiceAgent where
  "initial = \<lparr> messages = [], isTextMode = False, textInput = [], status = Disconnected,
               timers = [], suspended = 0, effects = [] \<rparr>"

text \<open>Reading a decimal numeral back, the inverse of \<open>show_nat\<close>.\<close>

definition read_nat :: "string \<Rightarrow> nat" where
  "read_nat s = foldl (\<lambda>acc c. 10 * acc + (of_char c - 48)) 0 s"

section \<open>Example inputs\<close>

definition example_response :: GenerateContentResponse where
  "example_response =
     \<lparr> resp_text = Some ''[SNAP_OFFICE] Main St'',
       candidates = Some [\<lparr> groundingMetadata = Some \<lparr> gm_groundingChunks = Some
         [\<lparr> web = None \<rparr>,
          \<lparr> web = Some \<lparr> uri = Some ''https://a.example'', title = Some ''A'' \<rparr> \<rparr>,
          \<lparr> web = Some \<lparr> uri = None, title = Some ''B'' \<rparr> \<rparr>] \<rparr> \<rparr>] \<rparr>"

definition example_app :: App where
  "example_app =
     \<lparr> step = Household,
       formData = \<lparr> form_state = ''Ohio'', form_zipcode = ''43004'', form_familySize = 1,
                    form_income = 1200 \<rparr>,
       loading = False, results = None, app_effects = [] \<rparr>"


definition connected_text :: VoiceAgent where
  "connected_text = initial\<lparr>status := Connected, isTextMode := True\<rparr>"

text \<open>Two arrivals in the same millisecond that draw the same random number.\<close>

definition colliding_arrivals :: "(Readings \<times> Arrival) list" where
  "colliding_arrivals =
     [(\<lparr> dateNow = 1700, random36 = ''0.4fzyo82mvyr'', newDate = 1700 \<rparr>,
       FromTransport \<lparr> message = ''Hello'', source = ''user'' \<rparr>),
      (\<lparr> dateNow = 1700, random36 = ''0.4fzyo82mvyr'', newDate = 1700 \<rparr>,
       FromTransport \<lparr> message = ''Hi, how can I help?'', source = ''ai'' \<rparr>)]"

definition example_arrivals :: "(Readings \<times> Arrival) list" where
  "example_arrivals =
     [(\<lparr> dateNow = 1700, random36 = ''0.4fzyo82mvyr'', newDate = 1700 \<rparr>,
       FromTextBox '' Hello ''),
      (\<lparr> dateNow = 1700, random36 = ''0.9k2xw51qpzc'', newDate = 1701 \<rparr>,
       FromTransport \<lparr> message = ''Hi, how can I help?'', source = ''ai'' \<rparr>),
      (\<lparr> dateNow = 1702, random36 = ''0.9k2xw51qpzc'', newDate = 1702 \<rparr>,
       FromTransport \<lparr> message = ''Thanks'', source = ''user'' \<rparr>)]"

section \<open>Properties of the eligibility engine\<close>

lemma checkEligibility_resolves:
  "\<exists>r. checkEligibility fl ns familySize monthlyIncome state = Inr r"
  by (simp add: checkEligibility_def Let_def)

lemma checkEligibility_limit:
  "checkEligibility fl ns familySize monthlyIncome state = Inr r \<Longrightarrow>
     limit r = spec_limit fl familySize"
  by (auto simp add: checkEligibility_def spec_limit_def Let_def)



lemma spec_limit_mono:
  assumes m: "mono fl" and z: "fl 0 = 0" and le: "a \<le> b"
  shows "spec_limit fl a \<le> spec_limit fl b"
proof -
  have pos: "0 \<le> fl x" if "0 \<le> x" for x
    using monoD [OF m that] z by simp
  have inc: "0 \<le> js_div fl 5380 12"
    unfolding js_div_def by (rule pos) simp
  have k: "0 \<le> fl (13 / 10)"
    by (rule pos) simp
  have s: "js_sub fl a 1 \<le> js_sub fl b 1"
    unfolding js_sub_def using le by (intro monoD [OF m]) simp
  have p: "js_mul fl (js_sub fl a 1) (js_div fl 5380 12)
             \<le> js_mul fl (js_sub fl b 1) (js_div fl 5380 12)"
    unfolding js_mul_def using s inc by (intro monoD [OF m] mult_right_mono)
  have q: "js_add fl (js_div fl 15060 12) (js_mul fl (js_sub fl a 1) (js_div fl 5380 12))
             \<le> js_add fl (js_div fl 15060 12) (js_mul fl (js_sub fl b 1) (js_div fl 5380 12))"
    unfolding js_add_def using p by (intro monoD [OF m] add_left_mono)
  show ?thesis
    unfolding spec_limit_def js_mul_def [of fl _ "fl (13 / 10)"]
    using q k by (intro monoD [OF m] mult_right_mono)
qed



text \<open>
  C2 (as the code has it). \<open>checkEligibility\<close> has no check of its inputs: for every
  family size and income, also a family size below 1 or a negative income, the call
  resolves with the result of the same formula on the inputs as they are; nothing is
  rejected and nothing is clamped.
\<close>

theorem checkEligibility_never_rejects:
  "\<exists>r. checkEligibility fl ns familySize monthlyIncome state = Inr r
        \<and> limit r = spec_limit fl familySize
        \<and> isEligible r = (monthlyIncome \<le> spec_limit fl familySize)"
  by (simp add: checkEligibility_def spec_limit_def Let_def)

text \<open>
  The claim as it is written fails: a family of 0 with an income of -5 is not rejected;
  the call resolves, with a limit of 3146 / 3 and the verdict eligible.
\<close>

theorem checkEligibility_invalid_input_resolves:
  "(0::real) < 1 \<and> (- 5::real) < 0
   \<and> \<not> isl (checkEligibility (\<lambda>x. x) (\<lambda>x. ''n'') 0 (- 5) ''Ohio'')
   \<and> limit (projr (checkEligibility (\<lambda>x. x) (\<lambda>x. ''n'') 0 (- 5) ''Ohio'')) = 3146 / 3
   \<and> isEligible (projr (checkEligibility (\<lambda>x. x) (\<lambda>x. ''n'') 0 (- 5) ''Ohio''))"
  by (simp add: checkEligibility_def Let_def js_add_def js_sub_def js_mul_def js_div_def)

text \<open>
  C5. The limit does not decrease when the family grows: for
  \<open>1 \<le> familySize1 \<le> familySize2\<close>, the same income and the same state, both calls
  resolve and the limit of the second is at least the limit of the first. The rounding
  of the arithmetic is monotone and keeps 0, as round-to-nearest does.
\<close>

theorem limit_monotone_in_familySize:
  assumes "mono fl" and "fl 0 = 0" and "1 \<le> familySize1" and "familySize1 \<le> familySize2"
  shows "\<exists>r1 r2. checkEligibility fl ns familySize1 monthlyIncome state = Inr r1
           \<and> checkEligibility fl ns familySize2 monthlyIncome state = Inr r2
           \<and> limit r1 \<le> limit r2"
proof -
  obtain r1 where r1: "checkEligibility fl ns familySize1 monthlyIncome state = Inr r1"
    using checkEligibility_resolves by blast
  obtain r2 where r2: "checkEligibility fl ns familySize2 monthlyIncome state = Inr r2"
    using checkEligibility_resolves by blast
  have "limit r1 \<le> limit r2"
    using spec_limit_mono [OF assms(1) assms(2) assms(4)]
    by (simp add: checkEligibility_limit [OF r1] checkEligibility_limit [OF r2])
  with r1 r2 show ?thesis by blast
qed

theorem limit_monotone_in_familySize_witness:
  "mono (\<lambda>x::real. x) \<and> (\<lambda>x::real. x) 0 = 0 \<and> (1::real) \<le> 1 \<and> (1::real) \<le> 4
   \<and> (\<exists>r1 r2. checkEligibility (\<lambda>x. x) (\<lambda>x. ''n'') 1 4000 ''Ohio'' = Inr r1
          \<and> checkEligibility (\<lambda>x. x) (\<lambda>x. ''n'') 4 4000 ''Ohio'' = Inr r2
          \<and> limit r1 \<le> limit r2)"
proof -
  have m: "mono (\<lambda>x::real. x)" by (simp add: mono_def)
  have z: "(\<lambda>x::real. x) 0 = 0" by simp
  show ?thesis
    using m limit_monotone_in_familySize [OF m z, of 1 4 "\<lambda>x. ''n''" 4000 "''Ohio''"]
    by simp
qed

section \<open>Properties of the parsing step\<close>

subsection \<open>The regular expressions in terms of positions\<close>

lemma filter_upt_Suc:
  "filter P [0..<Suc n] = (if P 0 then [0] else []) @ map Suc (filter (\<lambda>i. P (Suc i)) [0..<n])"
proof -
  have "[0..<Suc n] = 0 # map Suc [0..<n]"
    by (simp add: upt_conv_Cons map_Suc_upt del: upt_Suc)
  then show ?thesis
    by (simp add: filter_map comp_def del: upt_Suc)
qed

lemma occurrences_Nil: "occurrences m [] = []"
  by (simp add: occurrences_def)

lemma occurrences_Cons:
  "occurrences m (c # cs) = (if prefix m (c # cs) then [0] else []) @ map Suc (occurrences m cs)"
  unfolding occurrences_def using filter_upt_Suc [of "\<lambda>i. prefix m (drop i (c # cs))" "length cs"]
  by simp

lemma occurrences_mem:
  "i \<in> set (occurrences m t) \<longleftrightarrow> i < length t \<and> prefix m (drop i t)"
  by (auto simp add: occurrences_def)

lemma next_marker_pos_Nil: "next_marker_pos ms [] = 0"
  by (simp add: next_marker_pos_def)

lemma next_marker_pos_Cons:
  "next_marker_pos ms (c # cs) =
     (if list_ex (\<lambda>k. prefix k (c # cs)) ms then 0 else Suc (next_marker_pos ms cs))"
  unfolding next_marker_pos_def
  using filter_upt_Suc [of "\<lambda>j. list_ex (\<lambda>k. prefix k (drop j (c # cs))) ms" "length cs"]
  by (simp split: list.splits)

text \<open>The lazy group stops right before the first place where an alternative stands.\<close>

lemma lazy_capture_take: "lazy_capture stops u = take (next_marker_pos stops u) u"
  by (induction u) (simp_all add: next_marker_pos_Nil next_marker_pos_Cons)

text \<open>The match is at the first occurrence of the marker, and there is one iff it occurs.\<close>

lemma match_marker_occurrences:
  assumes "m \<noteq> []"
  shows "match_marker m stops t =
     (case occurrences m t of
        [] \<Rightarrow> None
      | i # _ \<Rightarrow> Some (lazy_capture stops (drop (i + length m) t)))"
  using assms
proof (induction t)
  case Nil
  then show ?case by (simp add: occurrences_Nil)
next
  case (Cons c cs)
  then show ?case
    by (cases "occurrences m cs") (simp_all add: occurrences_Cons)
qed

lemma next_marker_pos_cong:
  assumes "\<And>j. j < length u \<Longrightarrow>
             list_ex (\<lambda>k. prefix k (drop j u)) ms = list_ex (\<lambda>k. prefix k (drop j u)) ms'"
  shows "next_marker_pos ms u = next_marker_pos ms' u"
proof -
  have "filter (\<lambda>j. list_ex (\<lambda>k. prefix k (drop j u)) ms) [0..<length u]
      = filter (\<lambda>j. list_ex (\<lambda>k. prefix k (drop j u)) ms') [0..<length u]"
    by (rule filter_cong) (simp_all add: assms)
  then show ?thesis by (simp add: next_marker_pos_def)
qed

text \<open>
  The lookahead of a section's expression names the two other markers only. A marker
  that occurs once does not stand again after itself, so this makes no difference then.
\<close>

lemma no_later_occurrence:
  assumes one: "occurrences m t = [i]" and ne: "m \<noteq> []" and j: "j < length (drop (i + length m) t)"
  shows "\<not> prefix m (drop j (drop (i + length m) t))"
proof
  assume p: "prefix m (drop j (drop (i + length m) t))"
  have "j + (i + length m) < length t" using j by simp
  moreover have "prefix m (drop (j + (i + length m)) t)" using p by simp
  ultimately have "j + (i + length m) \<in> set (occurrences m t)"
    by (simp add: occurrences_mem)
  then have "j + (i + length m) = i" using one by simp
  then show False using ne by simp
qed

lemma section_refines:
  assumes ne: "m \<noteq> []" and one: "length (occurrences m t) = 1"
    and ms: "set ms = insert m (set stops)"
  shows "(case match_marker m stops t of Some g \<Rightarrow> trim g | None \<Rightarrow> [])
       = (case occurrences m t of
            [] \<Rightarrow> []
          | i # _ \<Rightarrow> (let u = drop (i + length m) t in trim (take (next_marker_pos ms u) u)))"
proof -
  from one obtain i where i: "occurrences m t = [i]"
    by (cases "occurrences m t") simp_all
  let ?u = "drop (i + length m) t"
  have "next_marker_pos stops ?u = next_marker_pos ms ?u"
  proof (rule next_marker_pos_cong)
    fix j assume "j < length ?u"
    then have "\<not> prefix m (drop j ?u)" by (rule no_later_occurrence [OF i ne])
    then show "list_ex (\<lambda>k. prefix k (drop j ?u)) stops = list_ex (\<lambda>k. prefix k (drop j ?u)) ms"
      using ms by (auto simp add: list_ex_iff)
  qed
  then show ?thesis
    by (simp add: match_marker_occurrences [OF ne] i lazy_capture_take Let_def)
qed

lemma section_absent:
  assumes "m \<noteq> []" and "occurrences m t = []"
  shows "(case match_marker m stops t of Some g \<Rightarrow> trim g | None \<Rightarrow> []) = []"
  using assms by (simp add: match_marker_occurrences)

lemma markers_nonempty:
  "SNAP_OFFICE \<noteq> []" "GROCERY_STORES \<noteq> []" "FOOD_PANTRIES \<noteq> []"
  by (simp_all add: SNAP_OFFICE_def GROCERY_STORES_def FOOD_PANTRIES_def)

subsection \<open>The fields of the parsed bundle\<close>

lemma parse_office:
  "office (parseResources \<lparr> res_text = Some t, res_groundingChunks = g \<rparr>)
     = (case match_marker SNAP_OFFICE [GROCERY_STORES, FOOD_PANTRIES] t of
          Some c \<Rightarrow> trim c | None \<Rightarrow> [])"
  by (simp add: parseResources_def Let_def)

lemma parse_stores:
  "stores (parseResources \<lparr> res_text = Some t, res_groundingChunks = g \<rparr>)
     = (case match_marker GROCERY_STORES [SNAP_OFFICE, FOOD_PANTRIES] t of
          Some c \<Rightarrow> trim c | None \<Rightarrow> [])"
  by (simp add: parseResources_def Let_def)

lemma parse_pantries:
  "pantries (parseResources \<lparr> res_text = Some t, res_groundingChunks = g \<rparr>)
     = (case match_marker FOOD_PANTRIES [SNAP_OFFICE, GROCERY_STORES] t of
          Some c \<Rightarrow> trim c | None \<Rightarrow> [])"
  by (simp add: parseResources_def Let_def)

lemma parse_fullText:
  "fullText (parseResources \<lparr> res_text = Some t, res_groundingChunks = g \<rparr>) = t"
  by (simp add: parseResources_def Let_def)

lemma parse_groundingChunks: "groundingChunks (parseResources r) = res_groundingChunks r"
  by (simp add: parseResources_def Let_def)

text \<open>
  C3. For a response text in which each of the three markers occurs exactly once, in
  any order, \<open>office\<close>, \<open>stores\<close> and \<open>pantries\<close> are the trimmed text between the
  section's marker and the next marker that occurs, or the end of the text; and the
  section of a marker that does not occur is the empty string.
\<close>

theorem parse_sections_contract:
  "(length (occurrences SNAP_OFFICE t) = 1 \<and> length (occurrences GROCERY_STORES t) = 1
      \<and> length (occurrences FOOD_PANTRIES t) = 1 \<longrightarrow>
      office (parseResources \<lparr> res_text = Some t, res_groundingChunks = g \<rparr>)
        = spec_section SNAP_OFFICE t
      \<and> stores (parseResources \<lparr> res_text = Some t, res_groundingChunks = g \<rparr>)
        = spec_section GROCERY_STORES t
      \<and> pantries (parseResources \<lparr> res_text = Some t, res_groundingChunks = g \<rparr>)
        = spec_section FOOD_PANTRIES t)
   \<and> (occurrences SNAP_OFFICE t = [] \<longrightarrow>
        office (parseResources \<lparr> res_text = Some t, res_groundingChunks = g \<rparr>) = [])
   \<and> (occurrences GROCERY_STORES t = [] \<longrightarrow>
        stores (parseResources \<lparr> res_text = Some t, res_groundingChunks = g \<rparr>) = [])
   \<and> (occurrences FOOD_PANTRIES t = [] \<longrightarrow>
        pantries (parseResources \<lparr> res_text = Some t, res_groundingChunks = g \<rparr>) = [])"
proof -
  have o: "office (parseResources \<lparr> res_text = Some t, res_groundingChunks = g \<rparr>)
             = spec_section SNAP_OFFICE t"
    if "length (occurrences SNAP_OFFICE t) = 1"
    unfolding parse_office spec_section_def
    by (rule section_refines [OF markers_nonempty(1) that]) auto
  have s: "stores (parseResources \<lparr> res_text = Some t, res_groundingChunks = g \<rparr>)
             = spec_section GROCERY_STORES t"
    if "length (occurrences GROCERY_STORES t) = 1"
    unfolding parse_stores spec_section_def
    by (rule section_refines [OF markers_nonempty(2) that]) auto
  have p: "pantries (parseResources \<lparr> res_text = Some t, res_groundingChunks = g \<rparr>)
             = spec_section FOOD_PANTRIES t"
    if "length (occurrences FOOD_PANTRIES t) = 1"
    unfolding parse_pantries spec_section_def
    by (rule section_refines [OF markers_nonempty(3) that]) auto
  show ?thesis
    using o s p
    by (simp add: parse_office parse_stores parse_pantries section_absent markers_nonempty)
qed

text \<open>
  The markers out of their order, each once: the sections are \<open>b\<close>, \<open>a\<close> and \<open>c\<close>. A text
  with no marker: the three sections are empty.
\<close>

lemma ex1_occ:
  "length (occurrences SNAP_OFFICE ''[GROCERY_STORES]a [SNAP_OFFICE] b [FOOD_PANTRIES]c'') = 1"
  "length (occurrences GROCERY_STORES ''[GROCERY_STORES]a [SNAP_OFFICE] b [FOOD_PANTRIES]c'') = 1"
  "length (occurrences FOOD_PANTRIES ''[GROCERY_STORES]a [SNAP_OFFICE] b [FOOD_PANTRIES]c'') = 1"
  by code_simp+

lemma ex1_spec:
  "spec_section SNAP_OFFICE ''[GROCERY_STORES]a [SNAP_OFFICE] b [FOOD_PANTRIES]c'' = ''b''"
  "spec_section GROCERY_STORES ''[GROCERY_STORES]a [SNAP_OFFICE] b [FOOD_PANTRIES]c'' = ''a''"
  "spec_section FOOD_PANTRIES ''[GROCERY_STORES]a [SNAP_OFFICE] b [FOOD_PANTRIES]c'' = ''c''"
  by code_simp+

lemma ex2_occ:
  "occurrences SNAP_OFFICE ''No results.'' = []"
  "occurrences GROCERY_STORES ''No results.'' = []"
  "occurrences FOOD_PANTRIES ''No results.'' = []"
  by code_simp+

theorem parse_sections_contract_witness:
  "length (occurrences SNAP_OFFICE ''[GROCERY_STORES]a [SNAP_OFFICE] b [FOOD_PANTRIES]c'') = 1
   \<and> length (occurrences GROCERY_STORES ''[GROCERY_STORES]a [SNAP_OFFICE] b [FOOD_PANTRIES]c'') = 1
   \<and> length (occurrences FOOD_PANTRIES ''[GROCERY_STORES]a [SNAP_OFFICE] b [FOOD_PANTRIES]c'') = 1
   \<and> office (parseResources \<lparr> res_text = Some ''[GROCERY_STORES]a [SNAP_OFFICE] b [FOOD_PANTRIES]c'',
                res_groundingChunks = [] \<rparr>) = ''b''
   \<and> stores (parseResources \<lparr> res_text = Some ''[GROCERY_STORES]a [SNAP_OFFICE] b [FOOD_PANTRIES]c'',
                res_groundingChunks = [] \<rparr>) = ''a''
   \<and> pantries (parseResources \<lparr> res_text = Some ''[GROCERY_STORES]a [SNAP_OFFICE] b [FOOD_PANTRIES]c'',
                res_groundingChunks = [] \<rparr>) = ''c''
   \<and> occurrences SNAP_OFFICE ''No results.'' = []
   \<and> occurrences GROCERY_STORES ''No results.'' = []
   \<and> occurrences FOOD_PANTRIES ''No results.'' = []
   \<and> office (parseResources \<lparr> res_text = Some ''No results.'', res_groundingChunks = [] \<rparr>) = []
   \<and> stores (parseResources \<lparr> res_text = Some ''No results.'', res_groundingChunks = [] \<rparr>) = []
   \<and> pantries (parseResources \<lparr> res_text = Some ''No results.'', res_groundingChunks = [] \<rparr>) = []"
  using parse_sections_contract [of "''[GROCERY_STORES]a [SNAP_OFFICE] b [FOOD_PANTRIES]c''" "[]"]
    parse_sections_contract [of "''No results.''" "[]"]
  by (simp only: ex1_occ ex1_spec ex2_occ simp_thms)

text \<open>
  C4. For a response text in which none of the three markers occurs, \<open>office\<close>, \<open>stores\<close>
  and \<open>pantries\<close> of the parsed bundle are empty and \<open>fullText\<close> is the response text as
  it came.
\<close>

theorem parse_fallback:
  assumes "occurrences SNAP_OFFICE t = []" and "occurrences GROCERY_STORES t = []"
    and "occurrences FOOD_PANTRIES t = []"
  shows "office (parseResources \<lparr> res_text = Some t, res_groundingChunks = g \<rparr>) = []
       \<and> stores (parseResources \<lparr> res_text = Some t, res_groundingChunks = g \<rparr>) = []
       \<and> pantries (parseResources \<lparr> res_text = Some t, res_groundingChunks = g \<rparr>) = []
       \<and> fullText (parseResources \<lparr> res_text = Some t, res_groundingChunks = g \<rparr>) = t"
  using assms
  by (simp add: parse_office parse_stores parse_pantries parse_fullText section_absent
      markers_nonempty)

lemma ex3_occ:
  "occurrences SNAP_OFFICE ''Sorry, nothing found.'' = []"
  "occurrences GROCERY_STORES ''Sorry, nothing found.'' = []"
  "occurrences FOOD_PANTRIES ''Sorry, nothing found.'' = []"
  by code_simp+

theorem parse_fallback_witness:
  "occurrences SNAP_OFFICE ''Sorry, nothing found.'' = []
   \<and> occurrences GROCERY_STORES ''Sorry, nothing found.'' = []
   \<and> occurrences FOOD_PANTRIES ''Sorry, nothing found.'' = []
   \<and> office (parseResources \<lparr> res_text = Some ''Sorry, nothing found.'', res_groundingChunks = [] \<rparr>) = []
   \<and> stores (parseResources \<lparr> res_text = Some ''Sorry, nothing found.'', res_groundingChunks = [] \<rparr>) = []
   \<and> pantries (parseResources \<lparr> res_text = Some ''Sorry, nothing found.'', res_groundingChunks = [] \<rparr>) = []
   \<and> fullText (parseResources \<lparr> res_text = Some ''Sorry, nothing found.'', res_groundingChunks = [] \<rparr>)
       = ''Sorry, nothing found.''"
  using parse_fallback [OF ex3_occ, of "[]"] ex3_occ by simp

text \<open>
  C10. In every bundle that the parsing step produces, whether a section was found or
  not, \<open>fullText\<close> is the response text as it came.
\<close>

theorem fullText_is_raw_text:
  "fullText (parseResources \<lparr> res_text = Some t, res_groundingChunks = g \<rparr>) = t"
  by (simp add: parseResources_def Let_def)

section \<open>Properties of the citations\<close>

lemma getSnapResources_resolved:
  "generateContent (prompt zipcode state) = Inr response \<Longrightarrow>
     getSnapResources generateContent zipcode state
       = ([], Inr \<lparr> res_text = resp_text response,
                    res_groundingChunks = returned_chunks response \<rparr>)"
  by (simp add: getSnapResources_def returned_chunks_def)

text \<open>
  C6 (as the code has it). When the service answers, the citations of the result bundle
  are the citation records that the service returned, in the same order and unchanged
  (none when the answer carries none); no record is removed, with or without a source
  URL.
\<close>

theorem citations_passed_through:
  assumes "generateContent (prompt (form_zipcode (formData app)) (form_state (formData app)))
             = Inr response"
  shows "\<exists>b. results (fetchResults fl ns generateContent app) = Some b
           \<and> groundingChunks (resources b) = returned_chunks response"
proof -
  obtain r where r: "checkEligibility fl ns (form_familySize (formData app))
      (form_income (formData app)) (form_state (formData app)) = Inr r"
    using checkEligibility_resolves by blast
  have g: "getSnapResources generateContent (form_zipcode (formData app))
      (form_state (formData app))
    = ([], Inr \<lparr> res_text = resp_text response,
                 res_groundingChunks = returned_chunks response \<rparr>)"
    using assms by (rule getSnapResources_resolved)
  show ?thesis
    by (simp add: fetchResults_def Let_def r g parse_groundingChunks)
qed

theorem citations_passed_through_witness:
  "(\<lambda>p. Inr example_response)
      (prompt (form_zipcode (formData example_app)) (form_state (formData example_app)))
      = (Inr example_response :: js_error + GenerateContentResponse)
   \<and> (\<exists>b. results (fetchResults (\<lambda>x. x) (\<lambda>x. ''n'') (\<lambda>p. Inr example_response) example_app) = Some b
          \<and> groundingChunks (resources b) = returned_chunks example_response)"
  using citations_passed_through [of "\<lambda>p. Inr example_response" example_app example_response
      "\<lambda>x. x" "\<lambda>x. ''n''"]
  by simp

text \<open>
  The claim as it is written fails: of three records returned, one without a \<open>web\<close> part
  and one whose \<open>web\<close> part has no \<open>uri\<close>, the bundle keeps all three, where the rule of
  the specification keeps one.
\<close>

theorem citations_without_url_kept:
  "map_option (\<lambda>b. groundingChunks (resources b))
      (results (fetchResults (\<lambda>x. x) (\<lambda>x. ''n'') (\<lambda>p. Inr example_response) example_app))
     = Some [\<lparr> web = None \<rparr>,
             \<lparr> web = Some \<lparr> uri = Some ''https://a.example'', title = Some ''A'' \<rparr> \<rparr>,
             \<lparr> web = Some \<lparr> uri = None, title = Some ''B'' \<rparr> \<rparr>]
   \<and> spec_citations (returned_chunks example_response)
     = [\<lparr> web = Some \<lparr> uri = Some ''https://a.example'', title = Some ''A'' \<rparr> \<rparr>]"
  by (simp add: fetchResults_def Let_def checkEligibility_def getSnapResources_def
      parseResources_def example_response_def example_app_def spec_citations_def
      returned_chunks_def has_url_def)

section \<open>Properties of the session controller\<close>

text \<open>
  C7 (as the code has it). \<open>handleStartSession\<close> does not look at the mode: it does the
  same in text mode as in voice mode. Whenever the media devices are there, the request
  for the microphone is the first thing it does, in either mode. In either mode, when
  the permission is denied, or when the media devices are unavailable (the lookup throws
  before a request is made), \<open>startSession\<close> is not called, the connection state and the
  rest of the state stay as they were, and the failure is written to the console; the
  handler itself completes.
\<close>

theorem start_requests_microphone_in_both_modes:
  "handleStartSession agentId mediaDevices startSession (s\<lparr>isTextMode := b\<rparr>)
     = (handleStartSession agentId mediaDevices startSession s)\<lparr>isTextMode := b\<rparr>
   \<and> isTextMode (handleStartSession agentId mediaDevices startSession s) = isTextMode s
   \<and> prefix (effects s @ [ConsoleLog [Str ''Starting session...''], GetUserMedia])
       (effects (handleStartSession agentId (Some getUserMedia) startSession s))
   \<and> handleStartSession agentId (Some (Inl err)) startSession s
       = s\<lparr>effects := effects s @ [ConsoleLog [Str ''Starting session...''], GetUserMedia,
              ConsoleError [Str ''Failed to start session:'', Err err]]\<rparr>
   \<and> handleStartSession agentId None startSession s
       = s\<lparr>effects := effects s @ [ConsoleLog [Str ''Starting session...''],
              ConsoleError [Str ''Failed to start session:'', Err TypeError_undefined]]\<rparr>"
proof -
  have mode: "handleStartSession agentId mediaDevices startSession (s\<lparr>isTextMode := b\<rparr>)
     = (handleStartSession agentId mediaDevices startSession s)\<lparr>isTextMode := b\<rparr>"
    by (simp add: handleStartSession_def Let_def split: option.splits sum.splits)
  have first: "prefix (effects s @ [ConsoleLog [Str ''Starting session...''], GetUserMedia])
       (effects (handleStartSession agentId (Some getUserMedia) startSession s))"
    by (cases getUserMedia; cases startSession) (simp_all add: handleStartSession_def Let_def)
  have denied: "handleStartSession agentId (Some (Inl err)) startSession s
       = s\<lparr>effects := effects s @ [ConsoleLog [Str ''Starting session...''], GetUserMedia,
              ConsoleError [Str ''Failed to start session:'', Err err]]\<rparr>"
    by (simp add: handleStartSession_def Let_def)
  have unavailable: "handleStartSession agentId None startSession s
       = s\<lparr>effects := effects s @ [ConsoleLog [Str ''Starting session...''],
              ConsoleError [Str ''Failed to start session:'', Err TypeError_undefined]]\<rparr>"
    by (simp add: handleStartSession_def Let_def)
  have same: "isTextMode (handleStartSession agentId mediaDevices startSession s) = isTextMode s"
    by (simp add: handleStartSession_def Let_def split: option.splits sum.splits)
  from mode same first denied unavailable show ?thesis by (intro conjI)
qed

text \<open>
  The claim as it is written fails: in text mode the microphone is requested all the
  same, and a refusal aborts the start of a text chat.
\<close>

theorem text_mode_start_requests_microphone:
  "isTextMode (initial\<lparr>isTextMode := True\<rparr>)
   \<and> effects (handleStartSession ''agent'' (Some (Inl (Thrown ''NotAllowedError''))) (Inr ())
        (initial\<lparr>isTextMode := True\<rparr>))
     = [ConsoleLog [Str ''Starting session...''], GetUserMedia,
        ConsoleError [Str ''Failed to start session:'', Err (Thrown ''NotAllowedError'')]]
   \<and> status (handleStartSession ''agent'' (Some (Inl (Thrown ''NotAllowedError''))) (Inr ())
        (initial\<lparr>isTextMode := True\<rparr>)) = Disconnected"
  by (simp add: handleStartSession_def initial_def Let_def)

subsection \<open>The mode toggle and its deferred start\<close>




lemma toggle_begin_not_connected:
  "status s \<noteq> Connected \<Longrightarrow> handleToggleMode_begin s = s\<lparr>isTextMode := \<not> isTextMode s\<rparr>"
  by (simp add: handleToggleMode_begin_def Let_def)











subsection \<open>The identifier of a message\<close>

lemma show_nat_eq:
  "show_nat n = (if n < 10 then [char_of (48 + n)] else show_nat (n div 10) @ [char_of (48 + n mod 10)])"
  by (rule show_nat.simps)

lemma read_show_nat: "read_nat (show_nat n) = n"
proof (induction n rule: show_nat.induct)
  case (1 n)
  show ?case
  proof (cases "n < 10")
    case True
    then show ?thesis
      by (subst show_nat_eq) (simp add: read_nat_def)
  next
    case False
    have "read_nat (show_nat n) = 10 * read_nat (show_nat (n div 10)) + n mod 10"
      using False by (subst show_nat_eq) (simp add: read_nat_def)
    also have "\<dots> = 10 * (n div 10) + n mod 10"
      using 1 False by simp
    finally show ?thesis by simp
  qed
qed

lemma show_nat_inj: "show_nat a = show_nat b \<Longrightarrow> a = b"
  by (metis read_show_nat)

lemma show_nat_no_dash: "CHR ''-'' \<notin> set (show_nat n)"
proof (induction n rule: show_nat.induct)
  case (1 n)
  have d: "char_of (48 + k :: nat) \<noteq> CHR ''-''" if "k < 10" for k
  proof
    assume "char_of (48 + k) = CHR ''-''"
    then have "of_char (char_of (48 + k)) = (of_char CHR ''-'' :: nat)" by simp
    then show False using that by simp
  qed
  show ?case
  proof (cases "n < 10")
    case True
    then show ?thesis using d [of n] by (subst show_nat_eq) auto
  next
    case False
    then show ?thesis using 1 d [of "n mod 10"] by (subst show_nat_eq) auto
  qed
qed

lemma takeWhile_until:
  "x \<notin> set xs \<Longrightarrow> takeWhile (\<lambda>c. c \<noteq> x) (xs @ x # r) = xs"
  by (induction xs) auto

lemma id_split:
  "takeWhile (\<lambda>c. c \<noteq> CHR ''-'') (show_nat n @ ''-'' @ r) = show_nat n"
  using takeWhile_until [OF show_nat_no_dash, of n r] by simp

text \<open>The identifier determines the clock reading and the random suffix it was built from.\<close>

lemma id_inj:
  assumes "show_nat a @ ''-'' @ r = show_nat b @ ''-'' @ r'"
  shows "a = b \<and> r = r'"
proof -
  have "show_nat a = show_nat b"
    using id_split [of a r] id_split [of b r'] assms by simp
  then have "a = b" by (rule show_nat_inj)
  then show ?thesis using assms by simp
qed

lemma message_of_id_inj:
  assumes "msg_id (message_of p) = msg_id (message_of q)"
  shows "dateNow (fst p) = dateNow (fst q)
       \<and> slice_2_9 (random36 (fst p)) = slice_2_9 (random36 (fst q))"
proof -
  have "show_nat (dateNow (fst p)) @ ''-'' @ slice_2_9 (random36 (fst p))
      = show_nat (dateNow (fst q)) @ ''-'' @ slice_2_9 (random36 (fst q))"
    using assms by (simp add: message_of_def)
  then show ?thesis by (rule id_inj)
qed

lemma distinct_ids:
  "distinct (map (\<lambda>p. (dateNow (fst p), slice_2_9 (random36 (fst p)))) evs) \<Longrightarrow>
     distinct (map (\<lambda>p. msg_id (message_of p)) evs)"
proof (induction evs)
  case Nil
  then show ?case by simp
next
  case (Cons p evs)
  have "msg_id (message_of p) \<notin> (\<lambda>q. msg_id (message_of q)) ` set evs"
  proof
    assume "msg_id (message_of p) \<in> (\<lambda>q. msg_id (message_of q)) ` set evs"
    then obtain q where q: "q \<in> set evs" and e: "msg_id (message_of p) = msg_id (message_of q)"
      by auto
    from message_of_id_inj [OF e] q Cons.prems show False
      by (auto simp add: image_iff)
  qed
  then show ?case using Cons by simp
qed

subsection \<open>The message log\<close>

lemma arrive_status: "status (arrive env a s) = status s"
  by (cases a)
    (simp_all add: onMessage_def addMessage_def handleSendText_def Let_def)

lemma arrive_messages:
  "ingested (status s) a \<Longrightarrow> messages (arrive env a s) = messages s @ [message_of (env, a)]"
proof (cases a)
  case (FromTransport ev)
  assume "ingested (status s) a"
  then have "is_utterance ev" by (simp add: FromTransport)
  then show ?thesis
    unfolding FromTransport is_utterance_def
    by (cases "source ev = ''ai''") (simp_all add: onMessage_def addMessage_def message_of_def)
next
  case (FromTextBox typed)
  assume "ingested (status s) a"
  then show ?thesis
    by (simp add: FromTextBox handleSendText_def addMessage_def message_of_def Let_def)
qed

lemma ingest_messages:
  "list_all (\<lambda>p. ingested (status s) (snd p)) evs \<Longrightarrow>
     messages (ingest evs s) = messages s @ map message_of evs"
proof (induction evs arbitrary: s)
  case Nil
  then show ?case by simp
next
  case (Cons p evs)
  obtain env a where p: "p = (env, a)" by (cases p)
  from Cons.prems have u: "ingested (status s) a"
    and rest: "list_all (\<lambda>p. ingested (status (arrive env a s)) (snd p)) evs"
    by (simp_all add: p arrive_status)
  show ?case
    by (simp add: p Cons.IH [OF rest] arrive_messages [OF u])
qed

text \<open>
  C9 (as the code has it). Starting from an empty log, a run of N utterances (events of
  the agent or of the user from the transport, and texts the user submits while
  connected) leaves a log of exactly N messages in the order of arrival. Each message
  has the role and the text of its utterance, a timestamp read at the moment of the
  append, and an identifier made of the clock reading at that moment and seven
  characters of a random number; no timestamp comes from the event. The identifiers are
  pairwise different whenever the pairs of clock reading and random characters are.
\<close>

theorem ingest_appends_in_arrival_order:
  assumes "list_all (\<lambda>p. ingested (status s) (snd p)) evs" and "messages s = []"
  shows "messages (ingest evs s) = map message_of evs
       \<and> length (messages (ingest evs s)) = length evs
       \<and> map role (messages (ingest evs s)) = map (\<lambda>p. role_of (snd p)) evs
       \<and> map msg_text (messages (ingest evs s)) = map (\<lambda>p. text_of (snd p)) evs
       \<and> map timestamp (messages (ingest evs s)) = map (\<lambda>p. newDate (fst p)) evs
       \<and> map msg_id (messages (ingest evs s))
           = map (\<lambda>p. show_nat (dateNow (fst p)) @ ''-'' @ slice_2_9 (random36 (fst p))) evs
       \<and> (distinct (map (\<lambda>p. (dateNow (fst p), slice_2_9 (random36 (fst p)))) evs) \<longrightarrow>
            distinct (map msg_id (messages (ingest evs s))))"
  using distinct_ids [of evs]
  by (simp add: ingest_messages [OF assms(1)] assms(2) message_of_def comp_def)

lemma example_arrivals_facts:
  "list_all (\<lambda>p. ingested (status connected_text) (snd p)) example_arrivals"
  "messages connected_text = []"
  "distinct (map (\<lambda>p. (dateNow (fst p), slice_2_9 (random36 (fst p)))) example_arrivals)"
  "length example_arrivals = 3"
  "map (\<lambda>p. role_of (snd p)) example_arrivals = [User, Agent, User]"
  "map (\<lambda>p. text_of (snd p)) example_arrivals = [''Hello'', ''Hi, how can I help?'', ''Thanks'']"
  "map (\<lambda>p. newDate (fst p)) example_arrivals = [1700, 1701, 1702]"
  by (simp_all add: example_arrivals_def connected_text_def initial_def is_utterance_def
      trim_def isWhiteSpace_def slice_2_9_def)

theorem ingest_appends_in_arrival_order_witness:
  "list_all (\<lambda>p. ingested (status connected_text) (snd p)) example_arrivals
   \<and> messages connected_text = []
   \<and> length (messages (ingest example_arrivals connected_text)) = 3
   \<and> map role (messages (ingest example_arrivals connected_text)) = [User, Agent, User]
   \<and> map msg_text (messages (ingest example_arrivals connected_text))
       = [''Hello'', ''Hi, how can I help?'', ''Thanks'']
   \<and> map timestamp (messages (ingest example_arrivals connected_text)) = [1700, 1701, 1702]
   \<and> distinct (map (\<lambda>p. (dateNow (fst p), slice_2_9 (random36 (fst p)))) example_arrivals)
   \<and> distinct (map msg_id (messages (ingest example_arrivals connected_text)))"
  using example_arrivals_facts(1,2,3)
    ingest_appends_in_arrival_order [OF example_arrivals_facts(1) example_arrivals_facts(2)]
  unfolding example_arrivals_facts(4,5,6,7) by blast

text \<open>
  The claim as it is written fails in the uniqueness of the identifiers: two events that
  arrive in the same millisecond and draw the same random number get the same one.
\<close>

theorem same_readings_same_id:
  "list_all (\<lambda>p. ingested (status initial) (snd p)) colliding_arrivals
   \<and> length (messages (ingest colliding_arrivals initial)) = 2
   \<and> \<not> distinct (map msg_id (messages (ingest colliding_arrivals initial)))"
  by (simp add: colliding_arrivals_def initial_def is_utterance_def onMessage_def
      addMessage_def)

end
